theory Spec2Isabelle
  imports Main "HOL-Library.Word" "HOL-Library.Signed_Division"
begin

unbundle bit_operations_syntax

section \<open>Data model of the HTTP/2 client message IO\<close>

text \<open>
  The development follows \<^verbatim>\<open>libsoup/http2/soup-client-message-io-http2.c\<close>.
  Structs are records, C enums are datatypes together with the integer the compiler
  gives each enumerator, \<^verbatim>\<open>GError *\<close> fields are options (\<open>None\<close> is the NULL
  pointer), and every call the file makes on a collaborator (the nghttp2 session, the
  message, the socket writer) is recorded as an \<open>effect\<close> in the order it is made.
\<close>

subsection \<open>Per-stream state\<close>

datatype SoupHTTP2IOState =
    STATE_NONE
  | STATE_WRITE_HEADERS
  | STATE_WRITE_DATA
  | STATE_WRITE_DONE
  | STATE_READ_HEADERS
  | STATE_READ_DATA_START
  | STATE_READ_DATA
  | STATE_READ_DONE

text \<open>The value of each enumerator; the C code compares states with \<^verbatim>\<open><\<close> on these.\<close>

fun state_rank :: "SoupHTTP2IOState \<Rightarrow> nat" where
  "state_rank STATE_NONE = 0"
| "state_rank STATE_WRITE_HEADERS = 1"
| "state_rank STATE_WRITE_DATA = 2"
| "state_rank STATE_WRITE_DONE = 3"
| "state_rank STATE_READ_HEADERS = 4"
| "state_rank STATE_READ_DATA_START = 5"
| "state_rank STATE_READ_DATA = 6"
| "state_rank STATE_READ_DONE = 7"

subsection \<open>Errors\<close>

datatype GIOErrorEnum =
    G_IO_ERROR_FAILED
  | G_IO_ERROR_WOULD_BLOCK
  | G_IO_ERROR_CANCELLED
  | G_IO_ERROR_OTHER nat

text \<open>A \<^verbatim>\<open>GError\<close> in the \<^verbatim>\<open>G_IO_ERROR\<close> domain: its code and its message.\<close>

datatype GError = GError GIOErrorEnum string

type_synonym guint32 = "32 word"
type_synonym gint32 = "32 word"

text \<open>
  The error codes of RFC 7540 as nghttp2 names them. \<^verbatim>\<open>nghttp2_http2_strerror\<close> belongs
  to the codec; only the text of error messages depends on it.
\<close>

definition NGHTTP2_NO_ERROR :: guint32 where "NGHTTP2_NO_ERROR = 0"
definition NGHTTP2_REFUSED_STREAM :: guint32 where "NGHTTP2_REFUSED_STREAM = 7"
definition NGHTTP2_CANCEL :: guint32 where "NGHTTP2_CANCEL = 8"
definition NGHTTP2_STREAM_CLOSED :: guint32 where "NGHTTP2_STREAM_CLOSED = 5"

definition nghttp2_http2_strerror :: "guint32 \<Rightarrow> string" where
  "nghttp2_http2_strerror c =
     (if c = 0 then ''NO_ERROR''
      else if c = 1 then ''PROTOCOL_ERROR''
      else if c = 2 then ''INTERNAL_ERROR''
      else if c = 3 then ''FLOW_CONTROL_ERROR''
      else if c = 4 then ''SETTINGS_TIMEOUT''
      else if c = 5 then ''STREAM_CLOSED''
      else if c = 6 then ''FRAME_SIZE_ERROR''
      else if c = 7 then ''REFUSED_STREAM''
      else if c = 8 then ''CANCEL''
      else if c = 9 then ''COMPRESSION_ERROR''
      else if c = 10 then ''CONNECT_ERROR''
      else if c = 11 then ''ENHANCE_YOUR_CALM''
      else if c = 12 then ''INADEQUATE_SECURITY''
      else if c = 13 then ''HTTP_1_1_REQUIRED''
      else ''unknown'')"

subsection \<open>The message as this file reads it\<close>

datatype SoupMessagePriority =
    SOUP_MESSAGE_PRIORITY_VERY_LOW
  | SOUP_MESSAGE_PRIORITY_LOW
  | SOUP_MESSAGE_PRIORITY_NORMAL
  | SOUP_MESSAGE_PRIORITY_HIGH
  | SOUP_MESSAGE_PRIORITY_VERY_HIGH

text \<open>
  What the getters of \<^verbatim>\<open>SoupMessage\<close> and \<^verbatim>\<open>GUri\<close> used by this file return.
  A C string is a \<open>string\<close>; a \<^verbatim>\<open>const char *\<close> that may be NULL is an option.
  \<open>uri_host\<close> is the result of \<^verbatim>\<open>soup_uri_get_host_for_headers\<close>.
\<close>

record SoupMessage =
  msg_method :: string
  uri_scheme :: string
  uri_host :: string
  uri_port :: int
  uri_uses_default_port :: bool
  uri_path :: string
  uri_query :: "string option"
  is_options_ping :: bool
  request_headers :: "(string \<times> string) list"
  request_body_stream :: bool
  expectation_continue :: bool
  priority :: SoupMessagePriority
  status_code :: guint32
  has_content_sniffer :: bool

subsection \<open>Stream data and connection IO\<close>

text \<open>
  \<^verbatim>\<open>SoupHTTP2MessageData\<close>. The completion callback is a function pointer; the model
  keeps its identity (\<open>None\<close> is NULL). \<open>msg\<close> holds the message the C field points to.
  \<open>item_async\<close> is \<^verbatim>\<open>data->item->async\<close>, \<open>body_istream\<close> tells whether the raw
  body stream has been allocated, \<open>task\<close> whether an asynchronous read is pending.
\<close>

record SoupHTTP2MessageData =
  msg :: SoupMessage
  item_async :: bool
  body_istream :: bool
  task :: bool
  completion_cb :: "nat option"
  state :: SoupHTTP2IOState
  error :: "GError option"
  paused :: bool
  stream_id :: guint32
  can_be_restarted :: bool
  expect_continue :: bool

text \<open>
  \<^verbatim>\<open>g_new0\<close> zeroes the struct; \<^verbatim>\<open>add_message_to_io_data\<close> then stores the message,
  the callback and \<^verbatim>\<open>stream_id = 0\<close>.
\<close>

definition new_message_data :: "SoupMessage \<Rightarrow> bool \<Rightarrow> nat option \<Rightarrow> SoupHTTP2MessageData" where
  "new_message_data m async cb =
     \<lparr> msg = m, item_async = async, body_istream = False, task = False,
       completion_cb = cb, state = STATE_NONE, error = None, paused = False,
       stream_id = 0, can_be_restarted = False, expect_continue = False \<rparr>"

subsection \<open>Error recording\<close>

text \<open>\<^verbatim>\<open>set_error_for_data\<close>: the first error is kept, a later one is freed.\<close>

definition set_error_for_data :: "SoupHTTP2MessageData \<Rightarrow> GError \<Rightarrow> SoupHTTP2MessageData" where
  "set_error_for_data data e =
     (if error data = None then data\<lparr>error := Some e\<rparr> else data)"

subsection \<open>State changes\<close>

text \<open>
  \<^verbatim>\<open>advance_state_from\<close>. A current state other than \<open>from_st\<close> only logs a warning.
  A target below the current state logs a warning and returns before the assignment.
\<close>

definition advance_state_from ::
  "SoupHTTP2MessageData \<Rightarrow> SoupHTTP2IOState \<Rightarrow> SoupHTTP2IOState \<Rightarrow> SoupHTTP2MessageData" where
  "advance_state_from data from_st to_st =
     (if state_rank to_st < state_rank (state data) then data
      else data\<lparr>state := to_st\<rparr>)"

subsection \<open>The connection IO\<close>

datatype SoupMessageIOCompletion =
    SOUP_MESSAGE_IO_COMPLETE
  | SOUP_MESSAGE_IO_INTERRUPTED

type_synonym nghttp2_nv = "string \<times> string"

text \<open>
  Calls on collaborators, in the order they are made. \<open>Nghttp2_submit_headers\<close> is
  \<^verbatim>\<open>nghttp2_submit_headers\<close> (weight, name/value list; it takes no data provider),
  \<open>Nghttp2_submit_request\<close> is \<^verbatim>\<open>nghttp2_submit_request\<close> (weight, name/value list,
  whether a data provider is passed), \<open>Nghttp2_submit_data\<close> is \<^verbatim>\<open>nghttp2_submit_data\<close>
  (flags, stream id), \<open>Completion_cb\<close> is the call of the stored completion callback
  with the status it is given.
\<close>

datatype effect =
    Nghttp2_submit_headers int "nghttp2_nv list"
  | Nghttp2_submit_request int "nghttp2_nv list" bool
  | Nghttp2_submit_data "8 word" gint32
  | Nghttp2_submit_rst_stream guint32 guint32
  | Nghttp2_session_terminate_session guint32
  | Nghttp2_session_set_stream_user_data_NULL guint32
  | Io_try_write bool
  | Completion_cb nat SoupMessageIOCompletion
  | Soup_message_got_informational
  | Soup_message_cleanup_response
  | Soup_message_got_headers
  | Soup_message_got_body
  | Soup_message_headers_append string string
  | Soup_message_wrote_body_data
  | Soup_message_wrote_headers
  | Soup_message_wrote_body
  | Soup_body_input_stream_http2_complete
  | Soup_body_input_stream_http2_add_data
  | Item_state_restarting
  | Call_finished
  | Task_return_error GError
  | Task_return_true

text \<open>
  \<^verbatim>\<open>SoupClientMessageIOHTTP2\<close>. \<open>messages\<close> is the hash table from message identity
  to stream data (keys are distinct), \<open>closed_messages\<close> the set of closed stream
  data. \<open>session_request_allowed\<close> is what \<^verbatim>\<open>nghttp2_session_check_request_allowed\<close>
  answers for the session. \<open>effects\<close> is the log of calls made on collaborators.
\<close>

record SoupClientMessageIOHTTP2 =
  io_error :: "GError option"
  messages :: "(nat \<times> SoupHTTP2MessageData) list"
  closed_messages :: "SoupHTTP2MessageData list"
  is_shutdown :: bool
  close_task :: bool
  session_terminated :: bool
  goaway_sent :: bool
  session_request_allowed :: bool
  effects :: "effect list"

text \<open>\<^verbatim>\<open>set_io_error\<close>.\<close>

definition set_io_error :: "SoupClientMessageIOHTTP2 \<Rightarrow> GError \<Rightarrow> SoupClientMessageIOHTTP2" where
  "set_io_error io e =
     (if io_error io = None then io\<lparr>io_error := Some e\<rparr> else io)"

text \<open>\<^verbatim>\<open>soup_client_message_io_http2_is_open\<close> and \<^verbatim>\<open>..._is_reusable\<close>.\<close>

definition soup_client_message_io_http2_is_open :: "SoupClientMessageIOHTTP2 \<Rightarrow> bool" where
  "soup_client_message_io_http2_is_open io =
     (if \<not> session_request_allowed io then False
      else \<not> is_shutdown io \<and> io_error io = None)"

definition soup_client_message_io_http2_is_reusable :: "SoupClientMessageIOHTTP2 \<Rightarrow> bool" where
  "soup_client_message_io_http2_is_reusable io = soup_client_message_io_http2_is_open io"

subsection \<open>Stream close\<close>

text \<open>
  \<^verbatim>\<open>on_stream_close_callback\<close>. The first argument is what
  \<^verbatim>\<open>nghttp2_session_get_stream_user_data\<close> returns for the stream id: \<open>None\<close> when no
  stream data is attached, in which case the callback returns at once.
\<close>

definition on_stream_close_callback ::
  "SoupHTTP2MessageData option \<Rightarrow> guint32 \<Rightarrow> SoupHTTP2MessageData option" where
  "on_stream_close_callback ud error_code =
     (case ud of
        None \<Rightarrow> None
      | Some data \<Rightarrow>
          Some (if error_code = NGHTTP2_REFUSED_STREAM
                   \<and> state_rank (state data) < state_rank STATE_READ_DATA
                then data\<lparr>can_be_restarted := True\<rparr>
                else data))"

subsection \<open>Priority weight\<close>

text \<open>
  The three weight macros of \<^verbatim>\<open>nghttp2.h\<close> are parameters of the model;
  \<open>nghttp2_weights\<close> holds the values the library publishes.
  C's \<^verbatim>\<open>/\<close> on \<^verbatim>\<open>int\<close> truncates towards zero: \<open>sdiv\<close>. The \<^verbatim>\<open>return\<close> after
  the switch is for a priority outside the five enumerators, which the datatype
  does not have.
\<close>

record weights =
  NGHTTP2_MIN_WEIGHT :: int
  NGHTTP2_DEFAULT_WEIGHT :: int
  NGHTTP2_MAX_WEIGHT :: int

definition nghttp2_weights :: weights where
  "nghttp2_weights =
     \<lparr> NGHTTP2_MIN_WEIGHT = 1, NGHTTP2_DEFAULT_WEIGHT = 16, NGHTTP2_MAX_WEIGHT = 256 \<rparr>"

definition message_priority_to_weight :: "weights \<Rightarrow> SoupMessage \<Rightarrow> int" where
  "message_priority_to_weight w m =
     (case priority m of
        SOUP_MESSAGE_PRIORITY_VERY_LOW \<Rightarrow> NGHTTP2_MIN_WEIGHT w
      | SOUP_MESSAGE_PRIORITY_LOW \<Rightarrow> (NGHTTP2_DEFAULT_WEIGHT w - NGHTTP2_MIN_WEIGHT w) sdiv 2
      | SOUP_MESSAGE_PRIORITY_NORMAL \<Rightarrow> NGHTTP2_DEFAULT_WEIGHT w
      | SOUP_MESSAGE_PRIORITY_HIGH \<Rightarrow> (NGHTTP2_MAX_WEIGHT w - NGHTTP2_DEFAULT_WEIGHT w) sdiv 2
      | SOUP_MESSAGE_PRIORITY_VERY_HIGH \<Rightarrow> NGHTTP2_MAX_WEIGHT w)"

text \<open>
  The specification's wording for the two intermediate levels: the weight halfway
  between two weights.
\<close>

definition spec_halfway_between :: "int \<Rightarrow> int \<Rightarrow> int" where
  "spec_halfway_between a b = (a + b) sdiv 2"

subsection \<open>Request headers\<close>

text \<open>\<^verbatim>\<open>g_ascii_tolower\<close>: only the letters A to Z change.\<close>

definition g_ascii_tolower :: "char \<Rightarrow> char" where
  "g_ascii_tolower c =
     (if 65 \<le> (of_char c :: nat) \<and> (of_char c :: nat) \<le> 90
      then char_of ((of_char c :: nat) + 32) else c)"

text \<open>
  Modelled from the spec: \<^verbatim>\<open>soup_str_case_equal\<close> is defined in \<^verbatim>\<open>soup-misc.c\<close>, which
  is not among the sources at hand. The specification calls the blacklist
  case-insensitive; it is taken as equality of the two strings after ASCII case folding.
\<close>

definition soup_str_case_equal :: "string \<Rightarrow> string \<Rightarrow> bool" where
  "soup_str_case_equal a b = (map g_ascii_tolower a = map g_ascii_tolower b)"

text \<open>The keys added to the static hash table of \<^verbatim>\<open>request_header_is_valid\<close>.\<close>

definition invalid_request_headers :: "string list" where
  "invalid_request_headers =
     [''Connection'', ''Keep-Alive'', ''Proxy-Connection'', ''Transfer-Encoding'', ''Upgrade'']"

text \<open>
  \<^verbatim>\<open>request_header_is_valid\<close>: the table contains the name when one of its keys is
  equal to it under the table's equality function.
\<close>

definition request_header_is_valid :: "string \<Rightarrow> bool" where
  "request_header_is_valid name =
     (\<not> list_ex (\<lambda>key. soup_str_case_equal key name) invalid_request_headers)"

text \<open>Decimal rendering, for \<^verbatim>\<open>%d\<close>.\<close>

fun string_of_nat :: "nat \<Rightarrow> string" where
  "string_of_nat n =
     (if n < 10 then [char_of (48 + n)]
      else string_of_nat (n div 10) @ [char_of (48 + n mod 10)])"

declare string_of_nat.simps [simp del]

definition string_of_int :: "int \<Rightarrow> string" where
  "string_of_int i =
     (if i < 0 then CHR ''-'' # string_of_nat (nat (- i)) else string_of_nat (nat i))"

text \<open>
  The bytes \<^verbatim>\<open>g_strdup_printf ("%s%c%s", path, query ? '?' : '\0', query)\<close> writes.
  With no query the \<^verbatim>\<open>%c\<close> conversion writes a NUL byte and \<^verbatim>\<open>%s\<close> of a NULL pointer
  writes \<^verbatim>\<open>(null)\<close>.
\<close>

definition path_and_query_bytes :: "string \<Rightarrow> string option \<Rightarrow> string" where
  "path_and_query_bytes path query =
     path @ [case query of None \<Rightarrow> CHR 0x00 | Some _ \<Rightarrow> CHR ''?'']
          @ (case query of None \<Rightarrow> ''(null)'' | Some q \<Rightarrow> q)"

text \<open>The C string a buffer holds: the bytes before the first NUL (\<^verbatim>\<open>strlen\<close>).\<close>

definition c_string :: "string \<Rightarrow> string" where
  "c_string buf = takeWhile (\<lambda>c. c \<noteq> CHR 0x00) buf"

definition path_and_query :: "SoupMessage \<Rightarrow> string" where
  "path_and_query m =
     (if is_options_ping m then ''*''
      else c_string (path_and_query_bytes (uri_path m) (uri_query m)))"

definition authority_header :: "SoupMessage \<Rightarrow> string" where
  "authority_header m =
     (if \<not> uri_uses_default_port m then uri_host m @ '':'' @ string_of_int (uri_port m)
      else uri_host m)"

definition pseudo_headers :: "SoupMessage \<Rightarrow> nghttp2_nv list" where
  "pseudo_headers m =
     [ ('':method'', msg_method m),
       ('':scheme'', uri_scheme m),
       ('':authority'', authority_header m),
       ('':path'', path_and_query m) ]"

text \<open>The name/value array \<^verbatim>\<open>send_message_request\<close> builds: the loop over the request headers.\<close>

fun append_request_headers :: "nghttp2_nv list \<Rightarrow> (string \<times> string) list \<Rightarrow> nghttp2_nv list" where
  "append_request_headers headers [] = headers"
| "append_request_headers headers ((name, val) # rest) =
     (if \<not> request_header_is_valid name then append_request_headers headers rest
      else append_request_headers (headers @ [(name, val)]) rest)"

definition request_nva :: "SoupMessage \<Rightarrow> nghttp2_nv list" where
  "request_nva m = append_request_headers (pseudo_headers m) (request_headers m)"

definition NGHTTP2_ERR_STREAM_ID_NOT_AVAILABLE :: int where
  "NGHTTP2_ERR_STREAM_ID_NOT_AVAILABLE = - 509"

definition NGHTTP2_ERR_NOMEM :: int where
  "NGHTTP2_ERR_NOMEM = - 901"

definition NGHTTP2_FLAG_END_STREAM :: "8 word" where "NGHTTP2_FLAG_END_STREAM = 1"
definition NGHTTP2_FLAG_END_HEADERS :: "8 word" where "NGHTTP2_FLAG_END_HEADERS = 4"

text \<open>
  \<^verbatim>\<open>send_message_request\<close>. \<open>ret\<close> is the value the codec returns from the submit
  call: a stream id, or a negative error code. \<open>None\<close> is the \<^verbatim>\<open>g_abort\<close> of
  \<^verbatim>\<open>NGCHECK\<close> on \<^verbatim>\<open>NGHTTP2_ERR_NOMEM\<close>. The request logger is not modelled.
\<close>

definition send_message_request ::
  "weights \<Rightarrow> SoupMessage \<Rightarrow> SoupHTTP2MessageData \<Rightarrow> int
     \<Rightarrow> (SoupHTTP2MessageData \<times> effect list) option" where
  "send_message_request w m data ret =
     (let headers = request_nva m;
          weight = message_priority_to_weight w m;
          with_continue = (request_body_stream m \<and> expectation_continue m);
          data1 = (if with_continue then data\<lparr>expect_continue := True\<rparr> else data);
          submit = (if with_continue then Nghttp2_submit_headers weight headers
                    else Nghttp2_submit_request weight headers (request_body_stream m))
      in if ret = NGHTTP2_ERR_STREAM_ID_NOT_AVAILABLE
         then Some ((set_error_for_data data1
                       (GError G_IO_ERROR_FAILED ''HTTP/2 Error: stream ID not available''))
                      \<lparr>can_be_restarted := True\<rparr>,
                    [submit])
         else if ret = NGHTTP2_ERR_NOMEM then None
         else Some (data1\<lparr>stream_id := word_of_int ret\<rparr>,
                    [submit, Io_try_write (\<not> item_async data1)]))"

section \<open>Codec callbacks on one stream\<close>

text \<open>
  Each callback starts with \<^verbatim>\<open>nghttp2_session_get_stream_user_data\<close> and returns at
  once when no stream data is attached. The functions below are the callbacks from that
  point on, acting on the stream data found. \<open>None\<close> is a failed \<^verbatim>\<open>g_assert\<close> or a
  use of stream data that has been released. The \<^verbatim>\<open>in_callback\<close> counter is raised on
  entry and lowered on every return, and metrics counters and debug logging are left out.
\<close>

datatype nghttp2_frame_type =
    NGHTTP2_DATA
  | NGHTTP2_HEADERS
  | NGHTTP2_PRIORITY
  | NGHTTP2_RST_STREAM
  | NGHTTP2_SETTINGS
  | NGHTTP2_PUSH_PROMISE
  | NGHTTP2_PING
  | NGHTTP2_GOAWAY
  | NGHTTP2_WINDOW_UPDATE
  | NGHTTP2_CONTINUATION
  | NGHTTP2_ALTSVC
  | NGHTTP2_ORIGIN

datatype nghttp2_headers_category =
    NGHTTP2_HCAT_REQUEST
  | NGHTTP2_HCAT_RESPONSE
  | NGHTTP2_HCAT_PUSH_RESPONSE
  | NGHTTP2_HCAT_HEADERS

text \<open>
  \<^verbatim>\<open>nghttp2_frame\<close>: the frame header and the fields of the union the callbacks read,
  each of them only under its own frame type.
\<close>

record nghttp2_frame =
  hd_stream_id :: gint32
  hd_type :: nghttp2_frame_type
  hd_flags :: "8 word"
  hd_length :: nat
  headers_cat :: nghttp2_headers_category
  goaway_error_code :: guint32
  goaway_last_stream_id :: gint32
  rst_stream_error_code :: guint32

definition flag_set :: "8 word \<Rightarrow> 8 word \<Rightarrow> bool" where
  "flag_set flags f = (flags AND f \<noteq> 0)"

text \<open>
  What a callback takes from its surroundings: whether
  \<^verbatim>\<open>soup_message_try_sniff_content\<close> succeeds, whether the pending task's cancellable
  is cancelled, the connection error at that moment, the stream's remote window
  size as the codec reports it, and what \<^verbatim>\<open>soup_message_cleanup_response\<close> (defined in
  \<^verbatim>\<open>soup-message.c\<close>) makes of the message.
\<close>

record callback_env =
  env_sniffed :: bool
  env_cancelled :: bool
  env_io_error :: "GError option"
  env_remote_window :: int
  env_cleanup_response :: "SoupMessage \<Rightarrow> SoupMessage"

definition SOUP_STATUS_CONTINUE :: guint32 where "SOUP_STATUS_CONTINUE = 100"
definition SOUP_STATUS_NO_CONTENT :: guint32 where "SOUP_STATUS_NO_CONTENT = 204"

definition SOUP_STATUS_IS_INFORMATIONAL :: "guint32 \<Rightarrow> bool" where
  "SOUP_STATUS_IS_INFORMATIONAL status = (100 \<le> status \<and> status < 200)"

text \<open>
  \<^verbatim>\<open>soup_http2_message_data_check_status\<close>. The call of
  \<^verbatim>\<open>soup_client_message_io_http2_finished\<close> is logged as \<open>Call_finished\<close>; what it does
  to the registries is in \<open>soup_client_message_io_http2_finished\<close> below.
\<close>

definition soup_http2_message_data_check_status ::
  "callback_env \<Rightarrow> SoupHTTP2MessageData \<Rightarrow> SoupHTTP2MessageData \<times> effect list" where
  "soup_http2_message_data_check_status env data =
     (if env_cancelled env
      then (data\<lparr>task := False\<rparr>,
            [Task_return_error (GError G_IO_ERROR_CANCELLED ''Operation was cancelled'')])
      else if paused data then (data, [])
      else
        let data1 = (if env_io_error env \<noteq> None \<and> error data = None
                     then data\<lparr>error := env_io_error env\<rparr> else data)
        in case error data1 of
             Some e \<Rightarrow>
               (data1\<lparr>error := None, task := False\<rparr>,
                (if can_be_restarted data1 then [Item_state_restarting] else [])
                  @ [Call_finished, Task_return_error e])
           | None \<Rightarrow>
               let data2 = (if state data1 = STATE_READ_DATA_START
                               \<and> \<not> has_content_sniffer (msg data1)
                            then advance_state_from data1 STATE_READ_DATA_START STATE_READ_DATA
                            else data1)
               in if state_rank (state data2) < state_rank STATE_READ_DATA then (data2, [])
                  else (data2\<lparr>task := False\<rparr>, [Task_return_true]))"

text \<open>
  \<^verbatim>\<open>io_try_sniff_content\<close>. The re-entrancy flag only makes a nested call return
  at once; it is not modelled.
\<close>

definition io_try_sniff_content :: "callback_env \<Rightarrow> SoupHTTP2MessageData \<Rightarrow> SoupHTTP2MessageData" where
  "io_try_sniff_content env data =
     (if env_sniffed env then advance_state_from data STATE_READ_DATA_START STATE_READ_DATA
      else data)"

text \<open>
  The value \<^verbatim>\<open>(guint) g_ascii_strtoull (value, NULL, 10)\<close> of a string of digits:
  the number its leading decimal digits denote, \<^verbatim>\<open>G_MAXUINT64\<close> when that does not fit
  64 bits, cut to the 32 bits of a \<^verbatim>\<open>guint\<close>. The codec hands over \<^verbatim>\<open>:status\<close> only
  when its value is made of digits.
\<close>

fun decimal_prefix :: "nat \<Rightarrow> string \<Rightarrow> nat" where
  "decimal_prefix acc [] = acc"
| "decimal_prefix acc (c # cs) =
     (if 48 \<le> (of_char c :: nat) \<and> (of_char c :: nat) \<le> 57
      then decimal_prefix (acc * 10 + ((of_char c :: nat) - 48)) cs
      else acc)"

definition status_of_value :: "string \<Rightarrow> guint32" where
  "status_of_value v = word_of_nat (min (decimal_prefix 0 v) (2 ^ 64 - 1))"

text \<open>\<^verbatim>\<open>on_header_callback\<close>. Ordinary headers go to the response headers of the message.\<close>

definition on_header_callback ::
  "SoupHTTP2MessageData \<Rightarrow> string \<Rightarrow> string \<Rightarrow> SoupHTTP2MessageData \<times> effect list" where
  "on_header_callback data name val =
     (if (case name of [] \<Rightarrow> False | c # _ \<Rightarrow> c = CHR '':'')
      then (if name = '':status''
            then (data\<lparr>msg := (msg data)\<lparr>status_code := status_of_value val\<rparr>\<rparr>, [])
            else (data, []))
      else (data, [Soup_message_headers_append name val]))"

text \<open>\<^verbatim>\<open>on_begin_frame_callback\<close>.\<close>

definition on_begin_frame_callback ::
  "SoupHTTP2MessageData \<Rightarrow> nghttp2_frame_type \<Rightarrow> (SoupHTTP2MessageData \<times> effect list) option" where
  "on_begin_frame_callback data ty =
     (case ty of
        NGHTTP2_HEADERS \<Rightarrow>
          Some (if state data = STATE_WRITE_DONE
                then advance_state_from data STATE_WRITE_DONE STATE_READ_HEADERS
                else data, [])
      | NGHTTP2_DATA \<Rightarrow>
          (if state_rank (state data) < state_rank STATE_READ_DATA_START
           then (if body_istream data then None
                 else Some (advance_state_from (data\<lparr>body_istream := True\<rparr>)
                              STATE_READ_HEADERS STATE_READ_DATA_START, []))
           else Some (data, []))
      | _ \<Rightarrow> Some (data, []))"

text \<open>
  The part of the HEADERS case of \<^verbatim>\<open>on_frame_recv_callback\<close> after the switch on the
  header category.
\<close>

definition frame_recv_final_headers ::
  "SoupHTTP2MessageData \<Rightarrow> nghttp2_frame \<Rightarrow> SoupHTTP2MessageData \<times> effect list" where
  "frame_recv_final_headers data frame =
     ((if status_code (msg data) = SOUP_STATUS_NO_CONTENT
          \<or> flag_set (hd_flags frame) NGHTTP2_FLAG_END_STREAM
       then advance_state_from data STATE_READ_HEADERS STATE_READ_DATA
       else data),
      [Soup_message_got_headers])"

text \<open>
  \<^verbatim>\<open>on_frame_recv_callback\<close> for a frame of a stream that has stream data attached.
  In the DATA case the callback reads \<^verbatim>\<open>data->item\<close> after
  \<^verbatim>\<open>soup_http2_message_data_check_status\<close>; when that call has finished the message,
  the stream data has been closed or freed by then.
\<close>

definition on_frame_recv_stream ::
  "callback_env \<Rightarrow> SoupHTTP2MessageData \<Rightarrow> nghttp2_frame
     \<Rightarrow> (SoupHTTP2MessageData \<times> effect list) option" where
  "on_frame_recv_stream env data frame =
     (case hd_type frame of
        NGHTTP2_HEADERS \<Rightarrow>
          (let status = status_code (msg data) in
           case headers_cat frame of
             NGHTTP2_HCAT_HEADERS \<Rightarrow>
               (if \<not> flag_set (hd_flags frame) NGHTTP2_FLAG_END_HEADERS then Some (data, [])
                else Some (frame_recv_final_headers data frame))
           | NGHTTP2_HCAT_RESPONSE \<Rightarrow>
               (if SOUP_STATUS_IS_INFORMATIONAL status
                then Some (data\<lparr>msg := env_cleanup_response env (msg data)\<rparr>,
                           (if expect_continue data \<and> status = SOUP_STATUS_CONTINUE
                            then [Nghttp2_submit_data NGHTTP2_FLAG_END_STREAM (hd_stream_id frame),
                                  Io_try_write (\<not> item_async data)]
                            else [])
                           @ [Soup_message_got_informational, Soup_message_cleanup_response])
                else Some (frame_recv_final_headers data frame))
           | NGHTTP2_HCAT_PUSH_RESPONSE \<Rightarrow> Some (frame_recv_final_headers data frame)
           | NGHTTP2_HCAT_REQUEST \<Rightarrow> None)
      | NGHTTP2_DATA \<Rightarrow>
          (if flag_set (hd_flags frame) NGHTTP2_FLAG_END_STREAM \<and> body_istream data
           then (if state data = STATE_READ_DATA_START
                 then (let data1 = io_try_sniff_content env data
                       in if state data1 = STATE_READ_DATA \<and> item_async data1
                          then (case soup_http2_message_data_check_status env data1 of
                                  (data2, effs) \<Rightarrow>
                                    if Call_finished \<in> set effs then None
                                    else Some (data2,
                                               Soup_body_input_stream_http2_complete # effs
                                               @ [Io_try_write (\<not> item_async data2)]))
                          else Some (data1, [Soup_body_input_stream_http2_complete,
                                             Io_try_write (\<not> item_async data1)]))
                 else Some (data, [Soup_body_input_stream_http2_complete,
                                   Io_try_write (\<not> item_async data)]))
           else Some (data, [Io_try_write (\<not> item_async data)]))
      | NGHTTP2_RST_STREAM \<Rightarrow>
          (if rst_stream_error_code frame \<noteq> NGHTTP2_NO_ERROR
           then Some (set_error_for_data data
                        (GError G_IO_ERROR_FAILED
                           (nghttp2_http2_strerror (rst_stream_error_code frame))), [])
           else Some (data, []))
      | NGHTTP2_WINDOW_UPDATE \<Rightarrow>
          Some (data, if env_remote_window env > 0 then [Io_try_write (\<not> item_async data)]
                      else [])
      | _ \<Rightarrow> Some (data, []))"

text \<open>\<^verbatim>\<open>on_data_chunk_recv_callback\<close>.\<close>

definition on_data_chunk_recv_callback ::
  "callback_env \<Rightarrow> SoupHTTP2MessageData \<Rightarrow> (SoupHTTP2MessageData \<times> effect list) option" where
  "on_data_chunk_recv_callback env data =
     (if \<not> body_istream data then None
      else Some (if state data = STATE_READ_DATA_START then io_try_sniff_content env data
                 else data,
                 [Soup_body_input_stream_http2_add_data]))"

text \<open>\<^verbatim>\<open>on_before_frame_send_callback\<close>.\<close>

definition on_before_frame_send_callback ::
  "SoupHTTP2MessageData \<Rightarrow> nghttp2_frame_type \<Rightarrow> SoupHTTP2MessageData \<times> effect list" where
  "on_before_frame_send_callback data ty =
     (case ty of
        NGHTTP2_HEADERS \<Rightarrow> (advance_state_from data STATE_NONE STATE_WRITE_HEADERS, [])
      | _ \<Rightarrow> (data, []))"

text \<open>
  \<^verbatim>\<open>on_frame_send_callback\<close> on the stream data; its HEADERS and DATA cases assert that
  stream data is attached. Its RST_STREAM and GOAWAY cases touch only the connection IO
  (\<open>closed_messages\<close>, \<open>goaway_sent\<close>).
\<close>

definition on_frame_send_callback ::
  "SoupHTTP2MessageData \<Rightarrow> nghttp2_frame \<Rightarrow> SoupHTTP2MessageData \<times> effect list" where
  "on_frame_send_callback data frame =
     (case hd_type frame of
        NGHTTP2_HEADERS \<Rightarrow>
          (if flag_set (hd_flags frame) NGHTTP2_FLAG_END_HEADERS
           then (if \<not> request_body_stream (msg data)
                 then (advance_state_from data STATE_WRITE_HEADERS STATE_WRITE_DONE,
                       [Soup_message_wrote_headers, Soup_message_wrote_body])
                 else (data, [Soup_message_wrote_headers]))
           else (data, []))
      | NGHTTP2_DATA \<Rightarrow>
          (let data1 = (if state_rank (state data) < state_rank STATE_WRITE_DATA
                        then advance_state_from data STATE_WRITE_HEADERS STATE_WRITE_DATA
                        else data);
               effs1 = (if hd_length frame \<noteq> 0 then [Soup_message_wrote_body_data] else [])
           in if flag_set (hd_flags frame) NGHTTP2_FLAG_END_STREAM
              then (advance_state_from data1 STATE_WRITE_DATA STATE_WRITE_DONE,
                    effs1 @ [Soup_message_wrote_body])
              else (data1, effs1))
      | _ \<Rightarrow> (data, []))"

text \<open>\<^verbatim>\<open>client_stream_eof\<close>, for a message whose stream data is found.\<close>

definition client_stream_eof :: "SoupHTTP2MessageData \<Rightarrow> SoupHTTP2MessageData \<times> effect list" where
  "client_stream_eof data =
     (advance_state_from data STATE_READ_DATA STATE_READ_DONE, [Soup_message_got_body])"

text \<open>\<^verbatim>\<open>soup_client_message_io_http2_pause\<close> and \<^verbatim>\<open>..._unpause\<close>.\<close>

definition soup_client_message_io_http2_pause :: "SoupHTTP2MessageData \<Rightarrow> SoupHTTP2MessageData" where
  "soup_client_message_io_http2_pause data = data\<lparr>paused := True\<rparr>"

definition soup_client_message_io_http2_unpause ::
  "callback_env \<Rightarrow> SoupHTTP2MessageData \<Rightarrow> SoupHTTP2MessageData \<times> effect list" where
  "soup_client_message_io_http2_unpause env data =
     (let data1 = data\<lparr>paused := False\<rparr>
      in if item_async data1 then soup_http2_message_data_check_status env data1
         else (data1, []))"

text \<open>
  The body of the loop of \<^verbatim>\<open>handle_goaway\<close>, for one stream. The stream id is cast to
  \<^verbatim>\<open>int32_t\<close> and compared as a signed number.
\<close>

definition goaway_stream :: "guint32 \<Rightarrow> gint32 \<Rightarrow> SoupHTTP2MessageData \<Rightarrow> SoupHTTP2MessageData" where
  "goaway_stream error_code last_stream_id data =
     (if (error_code = 0 \<and> sint (stream_id data) > sint last_stream_id)
         \<or> state_rank (state data) < state_rank STATE_READ_DONE
      then set_error_for_data data
             (GError G_IO_ERROR_FAILED
                (''HTTP/2 Error: '' @ nghttp2_http2_strerror error_code))
      else data)"

subsection \<open>Sequences of operations on one stream\<close>

datatype stream_event =
    Ev_header string string
  | Ev_begin_frame nghttp2_frame_type
  | Ev_frame_recv nghttp2_frame
  | Ev_data_chunk_recv
  | Ev_before_frame_send nghttp2_frame_type
  | Ev_frame_send nghttp2_frame
  | Ev_stream_close guint32
  | Ev_check_status
  | Ev_client_stream_eof
  | Ev_pause
  | Ev_unpause
  | Ev_goaway guint32 gint32

fun stream_step ::
  "callback_env \<Rightarrow> SoupHTTP2MessageData \<Rightarrow> stream_event
     \<Rightarrow> (SoupHTTP2MessageData \<times> effect list) option" where
  "stream_step env data (Ev_header name val) = Some (on_header_callback data name val)"
| "stream_step env data (Ev_begin_frame ty) = on_begin_frame_callback data ty"
| "stream_step env data (Ev_frame_recv frame) = on_frame_recv_stream env data frame"
| "stream_step env data Ev_data_chunk_recv = on_data_chunk_recv_callback env data"
| "stream_step env data (Ev_before_frame_send ty) = Some (on_before_frame_send_callback data ty)"
| "stream_step env data (Ev_frame_send frame) = Some (on_frame_send_callback data frame)"
| "stream_step env data (Ev_stream_close error_code) =
     map_option (\<lambda>d. (d, [])) (on_stream_close_callback (Some data) error_code)"
| "stream_step env data Ev_check_status = Some (soup_http2_message_data_check_status env data)"
| "stream_step env data Ev_client_stream_eof = Some (client_stream_eof data)"
| "stream_step env data Ev_pause = Some (soup_client_message_io_http2_pause data, [])"
| "stream_step env data Ev_unpause = Some (soup_client_message_io_http2_unpause env data)"
| "stream_step env data (Ev_goaway error_code last_stream_id) =
     Some (goaway_stream error_code last_stream_id data, [])"

text \<open>
  A run: the stream data and the log of calls after a sequence of operations, each
  with what it reads from its surroundings. A run stops with \<open>None\<close> where an operation
  does.
\<close>

fun run_stream ::
  "SoupHTTP2MessageData \<times> effect list \<Rightarrow> (callback_env \<times> stream_event) list
     \<Rightarrow> (SoupHTTP2MessageData \<times> effect list) option" where
  "run_stream s [] = Some s"
| "run_stream (data, log) ((env, ev) # rest) =
     (case stream_step env data ev of
        None \<Rightarrow> None
      | Some (data', effs) \<Rightarrow> run_stream (data', log @ effs) rest)"

section \<open>Operations on the connection IO\<close>

text \<open>
  \<^verbatim>\<open>handle_goaway\<close>: the loop visits every entry of \<open>messages\<close>; the visits do not
  depend on one another, so the order of the hash table iteration does not matter.
\<close>

definition handle_goaway ::
  "SoupClientMessageIOHTTP2 \<Rightarrow> guint32 \<Rightarrow> gint32 \<Rightarrow> SoupClientMessageIOHTTP2" where
  "handle_goaway io error_code last_stream_id =
     io\<lparr>messages :=
          map (\<lambda>(key, data). (key, goaway_stream error_code last_stream_id data))
            (messages io)\<rparr>"

text \<open>\<^verbatim>\<open>soup_client_message_io_http2_terminate_session\<close>.\<close>

definition soup_client_message_io_http2_terminate_session ::
  "SoupClientMessageIOHTTP2 \<Rightarrow> SoupClientMessageIOHTTP2" where
  "soup_client_message_io_http2_terminate_session io =
     (if session_terminated io then io
      else if length (messages io) \<noteq> 0 then io
      else io\<lparr>session_terminated := True,
              effects := effects io
                @ [Nghttp2_session_terminate_session NGHTTP2_NO_ERROR, Io_try_write False]\<rparr>)"

text \<open>Storing the stream data a pointer refers to back into the table.\<close>

definition store_data ::
  "nat \<Rightarrow> SoupHTTP2MessageData \<Rightarrow> (nat \<times> SoupHTTP2MessageData) list
     \<Rightarrow> (nat \<times> SoupHTTP2MessageData) list" where
  "store_data key data table = map (\<lambda>(k, d). if k = key then (k, data) else (k, d)) table"

text \<open>
  \<^verbatim>\<open>on_frame_recv_callback\<close>. \<open>ud\<close> is the stream data the codec has attached to
  the frame's stream, given by its key in \<open>messages\<close>; the callback asks for it only
  for a frame with a stream id other than 0.
\<close>

definition on_frame_recv_callback ::
  "callback_env \<Rightarrow> SoupClientMessageIOHTTP2 \<Rightarrow> nat option \<Rightarrow> nghttp2_frame
     \<Rightarrow> SoupClientMessageIOHTTP2 option" where
  "on_frame_recv_callback env io ud frame =
     (if hd_stream_id frame = 0
      then (case hd_type frame of
              NGHTTP2_GOAWAY \<Rightarrow>
                Some (soup_client_message_io_http2_terminate_session
                        ((handle_goaway io (goaway_error_code frame)
                            (goaway_last_stream_id frame))
                           \<lparr>is_shutdown := True\<rparr>))
            | _ \<Rightarrow> Some io)
      else (case ud of
              None \<Rightarrow> Some io
            | Some key \<Rightarrow>
                (case map_of (messages io) key of
                   None \<Rightarrow> Some io
                 | Some data \<Rightarrow>
                     (case on_frame_recv_stream env data frame of
                        None \<Rightarrow> None
                      | Some (data', effs) \<Rightarrow>
                          Some (io\<lparr>messages := store_data key data' (messages io),
                                   effects := effects io @ effs\<rparr>)))))"



subsection \<open>Request body and 100-continue\<close>

text \<open>
  The calls that give the codec a request body to send as DATA frames:
  \<^verbatim>\<open>nghttp2_submit_data\<close>, and \<^verbatim>\<open>nghttp2_submit_request\<close> with a data provider.
\<close>

fun submits_data :: "effect \<Rightarrow> bool" where
  "submits_data (Nghttp2_submit_data flags sid) = True"
| "submits_data (Nghttp2_submit_request weight nva provider) = provider"
| "submits_data _ = False"

text \<open>
  The moment the code takes for the arrival of a 100 response:
  \<^verbatim>\<open>on_frame_recv_callback\<close> runs for a HEADERS frame of category RESPONSE while the
  status of the message is 100. The codec gives the category RESPONSE to the first
  response HEADERS frame of a stream only; later ones have the category HEADERS.
\<close>

fun continue_received :: "SoupHTTP2MessageData \<Rightarrow> stream_event \<Rightarrow> bool" where
  "continue_received data (Ev_frame_recv frame) =
     (hd_type frame = NGHTTP2_HEADERS \<and> headers_cat frame = NGHTTP2_HCAT_RESPONSE
      \<and> status_code (msg data) = SOUP_STATUS_CONTINUE)"
| "continue_received data _ = False"

text \<open>
  The specification's wording, "a response with status 100 is received":
  \<^verbatim>\<open>on_frame_recv_callback\<close> runs for a HEADERS frame while the status of the message is
  100, whatever the category of the frame.
\<close>

fun spec_status_100_received :: "SoupHTTP2MessageData \<Rightarrow> stream_event \<Rightarrow> bool" where
  "spec_status_100_received data (Ev_frame_recv frame) =
     (hd_type frame = NGHTTP2_HEADERS \<and> status_code (msg data) = SOUP_STATUS_CONTINUE)"
| "spec_status_100_received data _ = False"

text \<open>The name/value list a submit call hands to the codec.\<close>

fun submitted_nva :: "effect \<Rightarrow> nghttp2_nv list option" where
  "submitted_nva (Nghttp2_submit_headers weight nva) = Some nva"
| "submitted_nva (Nghttp2_submit_request weight nva provider) = Some nva"
| "submitted_nva _ = None"

subsection \<open>Concrete inputs\<close>

text \<open>A GET of \<^verbatim>\<open>https://example.org/x\<close> without a body, at normal priority.\<close>

definition example_msg :: SoupMessage where
  "example_msg =
     \<lparr> msg_method = ''GET'', uri_scheme = ''https'', uri_host = ''example.org'',
       uri_port = 443, uri_uses_default_port = True, uri_path = ''/x'', uri_query = None,
       is_options_ping = False,
       request_headers = [(''Accept'', ''*/*''), (''CONNECTION'', ''keep-alive''),
                          (''upgrade'', ''h2c''), (''User-Agent'', ''soup'')],
       request_body_stream = False, expectation_continue = False,
       priority = SOUP_MESSAGE_PRIORITY_NORMAL, status_code = 0,
       has_content_sniffer = False \<rparr>"

text \<open>A POST with a body that declares the 100-continue expectation.\<close>

definition example_post :: SoupMessage where
  "example_post =
     example_msg\<lparr> msg_method := ''POST'', request_body_stream := True,
                  expectation_continue := True,
                  request_headers := [(''Expect'', ''100-continue'')] \<rparr>"

text \<open>The stream data of a freshly submitted asynchronous request with callback 1.\<close>

definition example_data :: SoupHTTP2MessageData where
  "example_data = new_message_data example_msg True (Some 1)"

definition example_io :: SoupClientMessageIOHTTP2 where
  "example_io =
     \<lparr> io_error = None, messages = [], closed_messages = [], is_shutdown = False,
       close_task = False, session_terminated = False, goaway_sent = False,
       session_request_allowed = True, effects = [] \<rparr>"

definition example_env :: callback_env where
  "example_env =
     \<lparr> env_sniffed = False, env_cancelled = False, env_io_error = None,
       env_remote_window = 65535,
       env_cleanup_response = (\<lambda>m. m\<lparr>status_code := 0\<rparr>) \<rparr>"

text \<open>A HEADERS frame on stream 1 with the given flags and category.\<close>

definition example_headers_frame :: "8 word \<Rightarrow> nghttp2_headers_category \<Rightarrow> nghttp2_frame" where
  "example_headers_frame flags cat =
     \<lparr> hd_stream_id = 1, hd_type = NGHTTP2_HEADERS, hd_flags = flags, hd_length = 20,
       headers_cat = cat, goaway_error_code = 0, goaway_last_stream_id = 0,
       rst_stream_error_code = 0 \<rparr>"

text \<open>
  The request is written (HEADERS with END_STREAM and END_HEADERS), the peer answers
  204 in a single HEADERS frame with END_STREAM, the pending read is checked and the
  client stream reaches its end.
\<close>

definition example_exchange_204 :: "(callback_env \<times> stream_event) list" where
  "example_exchange_204 =
     map (Pair example_env)
       [ Ev_before_frame_send NGHTTP2_HEADERS,
         Ev_frame_send (example_headers_frame 5 NGHTTP2_HCAT_REQUEST),
         Ev_begin_frame NGHTTP2_HEADERS,
         Ev_header '':status'' ''204'',
         Ev_frame_recv (example_headers_frame 5 NGHTTP2_HCAT_RESPONSE),
         Ev_check_status,
         Ev_client_stream_eof ]"

text \<open>
  The stream data of the POST, and what happens on its stream up to the arrival of the
  \<^verbatim>\<open>:status\<close> header of a 100 response: the request HEADERS are written, the response
  HEADERS frame begins, the status header is decoded.
\<close>

definition example_post_data :: SoupHTTP2MessageData where
  "example_post_data = new_message_data example_post True (Some 1)"

definition example_until_continue :: "(callback_env \<times> stream_event) list" where
  "example_until_continue =
     map (Pair example_env)
       [ Ev_before_frame_send NGHTTP2_HEADERS,
         Ev_frame_send (example_headers_frame 4 NGHTTP2_HCAT_REQUEST),
         Ev_begin_frame NGHTTP2_HEADERS,
         Ev_header '':status'' ''100'' ]"

text \<open>
  The same POST when the peer first answers 103 and then 100: the request HEADERS are
  written, a first response HEADERS frame (category RESPONSE) brings status 103, a second
  one (category HEADERS, with END_HEADERS) brings status 100. The last element is the
  receipt of that second frame.
\<close>

definition example_until_continue_after_103 :: "(callback_env \<times> stream_event) list" where
  "example_until_continue_after_103 =
     map (Pair example_env)
       [ Ev_before_frame_send NGHTTP2_HEADERS,
         Ev_frame_send (example_headers_frame 4 NGHTTP2_HCAT_REQUEST),
         Ev_begin_frame NGHTTP2_HEADERS,
         Ev_header '':status'' ''103'',
         Ev_frame_recv (example_headers_frame 4 NGHTTP2_HCAT_RESPONSE),
         Ev_begin_frame NGHTTP2_HEADERS,
         Ev_header '':status'' ''100'' ]"

definition example_continue_as_headers :: "callback_env \<times> stream_event" where
  "example_continue_as_headers =
     (example_env, Ev_frame_recv (example_headers_frame 4 NGHTTP2_HCAT_HEADERS))"

text \<open>
  Two requests in flight on streams 1 and 3, both with their response headers being
  read, and a GOAWAY frame with error code 0 (NO_ERROR) and last stream id 1.
\<close>

definition example_io_two_streams :: SoupClientMessageIOHTTP2 where
  "example_io_two_streams =
     example_io\<lparr>messages :=
       [ (10, example_data\<lparr>stream_id := 1, state := STATE_READ_HEADERS\<rparr>),
         (11, example_data\<lparr>stream_id := 3, state := STATE_READ_HEADERS\<rparr>) ]\<rparr>"

definition example_goaway_frame :: nghttp2_frame where
  "example_goaway_frame =
     \<lparr> hd_stream_id = 0, hd_type = NGHTTP2_GOAWAY, hd_flags = 0, hd_length = 8,
       headers_cat = NGHTTP2_HCAT_HEADERS, goaway_error_code = 0,
       goaway_last_stream_id = 1, rst_stream_error_code = 0 \<rparr>"

section \<open>Verified properties\<close>

text \<open>
  C3. \<^verbatim>\<open>is_open\<close> holds exactly when the codec allows a request, the connection is not
  shut down and no connection error is stored; \<^verbatim>\<open>is_reusable\<close> returns what
  \<^verbatim>\<open>is_open\<close> returns.
\<close>

theorem is_open_iff:
  "soup_client_message_io_http2_is_open io
     = (session_request_allowed io \<and> \<not> is_shutdown io \<and> io_error io = None)
   \<and> soup_client_message_io_http2_is_reusable io = soup_client_message_io_http2_is_open io"
  by (simp add: soup_client_message_io_http2_is_open_def
      soup_client_message_io_http2_is_reusable_def)

subsection \<open>Error recording\<close>

lemma set_error_for_data_sticky:
  "error data \<noteq> None \<Longrightarrow> foldl set_error_for_data data es = data"
proof (induction es)
  case Nil
  show ?case by simp
next
  case (Cons x xs)
  from Cons.prems have "set_error_for_data data x = data"
    by (simp add: set_error_for_data_def)
  with Cons show ?case by simp
qed

lemma set_io_error_sticky:
  "io_error io \<noteq> None \<Longrightarrow> foldl set_io_error io es = io"
proof (induction es)
  case Nil
  show ?case by simp
next
  case (Cons x xs)
  from Cons.prems have "set_io_error io x = io"
    by (simp add: set_io_error_def)
  with Cons show ?case by simp
qed

text \<open>
  C7. Once \<^verbatim>\<open>set_error_for_data\<close> has been called, any number of later calls leaves
  the stream data as that call left it; the stored error is the first one when none
  was stored before, and the call changes nothing when one was. The same holds for
  \<^verbatim>\<open>set_io_error\<close> and the connection error.
\<close>

theorem first_error_wins:
  "foldl set_error_for_data (set_error_for_data data e) es = set_error_for_data data e
   \<and> (error data = None \<longrightarrow>
        error (foldl set_error_for_data (set_error_for_data data e) es) = Some e)
   \<and> (error data \<noteq> None \<longrightarrow> set_error_for_data data e = data)
   \<and> foldl set_io_error (set_io_error io e') es' = set_io_error io e'
   \<and> (io_error io = None \<longrightarrow>
        io_error (foldl set_io_error (set_io_error io e') es') = Some e')
   \<and> (io_error io \<noteq> None \<longrightarrow> set_io_error io e' = io)"
proof -
  have d: "error (set_error_for_data data e) \<noteq> None"
    by (simp add: set_error_for_data_def)
  have i: "io_error (set_io_error io e') \<noteq> None"
    by (simp add: set_io_error_def)
  have d': "error data = None \<Longrightarrow> error (set_error_for_data data e) = Some e"
    by (simp add: set_error_for_data_def)
  have i': "io_error io = None \<Longrightarrow> io_error (set_io_error io e') = Some e'"
    by (simp add: set_io_error_def)
  have d'': "error data \<noteq> None \<Longrightarrow> set_error_for_data data e = data"
    by (simp add: set_error_for_data_def)
  have i'': "io_error io \<noteq> None \<Longrightarrow> set_io_error io e' = io"
    by (simp add: set_io_error_def)
  show ?thesis
    using set_error_for_data_sticky [OF d, of es] set_io_error_sticky [OF i, of es']
      d' i' d'' i''
    by simp
qed

theorem first_error_wins_witness:
  "error example_data = None \<and> io_error example_io = None
   \<and> error (foldl set_error_for_data
              (set_error_for_data example_data (GError G_IO_ERROR_FAILED ''REFUSED_STREAM''))
              [GError G_IO_ERROR_FAILED ''HTTP/2 Error: NO_ERROR'',
               GError G_IO_ERROR_CANCELLED ''cancelled''])
       = Some (GError G_IO_ERROR_FAILED ''REFUSED_STREAM'')
   \<and> io_error (foldl set_io_error
              (set_io_error example_io (GError (G_IO_ERROR_OTHER 44) ''broken pipe''))
              [GError G_IO_ERROR_FAILED ''later''])
       = Some (GError (G_IO_ERROR_OTHER 44) ''broken pipe'')"
proof -
  have h1: "error example_data = None"
    by (simp add: example_data_def new_message_data_def)
  have h2: "io_error example_io = None"
    by (simp add: example_io_def)
  show ?thesis
    using h1 h2
      first_error_wins [of example_data "GError G_IO_ERROR_FAILED ''REFUSED_STREAM''"
        "[GError G_IO_ERROR_FAILED ''HTTP/2 Error: NO_ERROR'',
          GError G_IO_ERROR_CANCELLED ''cancelled'']"
        example_io "GError (G_IO_ERROR_OTHER 44) ''broken pipe''"
        "[GError G_IO_ERROR_FAILED ''later'']"]
    by blast
qed

subsection \<open>Stream close\<close>

text \<open>
  C8. The stream-close callback assigns \<^verbatim>\<open>can_be_restarted = TRUE\<close> when the error code
  is REFUSED_STREAM and the state is below READ_DATA, and changes nothing in every
  other case; with CANCEL it never changes the stream data.
\<close>

theorem stream_close_restartable:
  "(error_code = NGHTTP2_REFUSED_STREAM \<and> state_rank (state data) < state_rank STATE_READ_DATA
      \<longrightarrow> on_stream_close_callback (Some data) error_code
            = Some (data\<lparr>can_be_restarted := True\<rparr>))
   \<and> (\<not> (error_code = NGHTTP2_REFUSED_STREAM
           \<and> state_rank (state data) < state_rank STATE_READ_DATA)
      \<longrightarrow> on_stream_close_callback (Some data) error_code = Some data)
   \<and> on_stream_close_callback (Some data) NGHTTP2_CANCEL = Some data
   \<and> on_stream_close_callback None error_code = None"
  by (simp add: on_stream_close_callback_def NGHTTP2_CANCEL_def NGHTTP2_REFUSED_STREAM_def)

theorem stream_close_restartable_witness:
  "state_rank (state example_data) < state_rank STATE_READ_DATA
   \<and> can_be_restarted (the (on_stream_close_callback (Some example_data) NGHTTP2_REFUSED_STREAM))
   \<and> \<not> can_be_restarted (the (on_stream_close_callback (Some example_data) NGHTTP2_CANCEL))
   \<and> \<not> can_be_restarted
         (the (on_stream_close_callback (Some (example_data\<lparr>state := STATE_READ_DATA\<rparr>))
                 NGHTTP2_REFUSED_STREAM))"
proof -
  have h: "state_rank (state example_data) < state_rank STATE_READ_DATA"
    by (simp add: example_data_def new_message_data_def)
  have c: "\<not> can_be_restarted example_data"
    by (simp add: example_data_def new_message_data_def)
  show ?thesis
    using h c
      stream_close_restartable [of NGHTTP2_REFUSED_STREAM example_data]
      stream_close_restartable [of NGHTTP2_REFUSED_STREAM
        "example_data\<lparr>state := STATE_READ_DATA\<rparr>"]
    by simp
qed

subsection \<open>Priority weight\<close>

text \<open>
  C5, as the code has it. VERY_LOW, NORMAL and VERY_HIGH map to the minimum, default and
  maximum weight. LOW maps to half the difference between the default and the minimum
  weight, HIGH to half the difference between the maximum and the default weight
  (integer division).
\<close>

theorem priority_weights:
  "message_priority_to_weight w (m\<lparr>priority := SOUP_MESSAGE_PRIORITY_VERY_LOW\<rparr>)
     = NGHTTP2_MIN_WEIGHT w
   \<and> message_priority_to_weight w (m\<lparr>priority := SOUP_MESSAGE_PRIORITY_LOW\<rparr>)
     = (NGHTTP2_DEFAULT_WEIGHT w - NGHTTP2_MIN_WEIGHT w) sdiv 2
   \<and> message_priority_to_weight w (m\<lparr>priority := SOUP_MESSAGE_PRIORITY_NORMAL\<rparr>)
     = NGHTTP2_DEFAULT_WEIGHT w
   \<and> message_priority_to_weight w (m\<lparr>priority := SOUP_MESSAGE_PRIORITY_HIGH\<rparr>)
     = (NGHTTP2_MAX_WEIGHT w - NGHTTP2_DEFAULT_WEIGHT w) sdiv 2
   \<and> message_priority_to_weight w (m\<lparr>priority := SOUP_MESSAGE_PRIORITY_VERY_HIGH\<rparr>)
     = NGHTTP2_MAX_WEIGHT w"
  by (simp add: message_priority_to_weight_def)

text \<open>
  With nghttp2's weights (1, 16, 256) a HIGH message gets weight 120, while the weight
  halfway between default and maximum is 136; a LOW message gets 7, while the weight
  halfway between minimum and default is 8.
\<close>

theorem priority_weights_counterexample:
  "message_priority_to_weight nghttp2_weights
       (example_msg\<lparr>priority := SOUP_MESSAGE_PRIORITY_HIGH\<rparr>)
     \<noteq> spec_halfway_between (NGHTTP2_DEFAULT_WEIGHT nghttp2_weights)
         (NGHTTP2_MAX_WEIGHT nghttp2_weights)
   \<and> message_priority_to_weight nghttp2_weights
       (example_msg\<lparr>priority := SOUP_MESSAGE_PRIORITY_HIGH\<rparr>) = 120
   \<and> spec_halfway_between (NGHTTP2_DEFAULT_WEIGHT nghttp2_weights)
       (NGHTTP2_MAX_WEIGHT nghttp2_weights) = 136
   \<and> message_priority_to_weight nghttp2_weights
       (example_msg\<lparr>priority := SOUP_MESSAGE_PRIORITY_LOW\<rparr>) = 7
   \<and> spec_halfway_between (NGHTTP2_MIN_WEIGHT nghttp2_weights)
       (NGHTTP2_DEFAULT_WEIGHT nghttp2_weights) = 8"
  by (simp add: message_priority_to_weight_def nghttp2_weights_def spec_halfway_between_def
      signed_divide_int_def)

subsection \<open>Request headers\<close>

lemma tolower_blacklist:
  "map g_ascii_tolower ''Connection'' = ''connection''"
  "map g_ascii_tolower ''Keep-Alive'' = ''keep-alive''"
  "map g_ascii_tolower ''Proxy-Connection'' = ''proxy-connection''"
  "map g_ascii_tolower ''Transfer-Encoding'' = ''transfer-encoding''"
  "map g_ascii_tolower ''Upgrade'' = ''upgrade''"
  by code_simp+

lemma not_any_of_five:
  "(\<not> (a = x \<or> b = x \<or> c = x \<or> d = x \<or> e = x)) = (x \<notin> {a, b, c, d, e})"
  by auto

lemma request_header_is_valid_iff:
  "request_header_is_valid name \<longleftrightarrow>
     map g_ascii_tolower name \<notin>
       {''connection'', ''keep-alive'', ''proxy-connection'', ''transfer-encoding'', ''upgrade''}"
proof -
  have "request_header_is_valid name \<longleftrightarrow>
          \<not> (map g_ascii_tolower ''Connection'' = map g_ascii_tolower name
             \<or> map g_ascii_tolower ''Keep-Alive'' = map g_ascii_tolower name
             \<or> map g_ascii_tolower ''Proxy-Connection'' = map g_ascii_tolower name
             \<or> map g_ascii_tolower ''Transfer-Encoding'' = map g_ascii_tolower name
             \<or> map g_ascii_tolower ''Upgrade'' = map g_ascii_tolower name)"
    unfolding request_header_is_valid_def invalid_request_headers_def soup_str_case_equal_def
      list_ex_iff
    by (simp del: list.map)
  then show ?thesis
    unfolding tolower_blacklist by (rule trans) (rule not_any_of_five)
qed

lemma append_request_headers_filter:
  "append_request_headers hs rest
     = hs @ filter (\<lambda>(name, val). request_header_is_valid name) rest"
  by (induction hs rest rule: append_request_headers.induct) auto

lemma send_message_request_nva:
  "send_message_request w m data ret = Some (data', effs)
     \<Longrightarrow> submitted_nva (hd effs) = Some (request_nva m)"
  by (auto simp: send_message_request_def Let_def split: if_splits)

text \<open>
  C4. The name/value list handed to the codec when a request is submitted is the four
  pseudo-headers followed by the request headers in their order, leaving out exactly
  those whose name, after ASCII case folding, is one of connection, keep-alive,
  proxy-connection, transfer-encoding, upgrade.
\<close>

theorem request_headers_filtered:
  "request_nva m =
     pseudo_headers m @
     filter (\<lambda>(name, val). map g_ascii_tolower name \<notin>
               {''connection'', ''keep-alive'', ''proxy-connection'',
                ''transfer-encoding'', ''upgrade''})
       (request_headers m)
   \<and> (\<forall>data' effs. send_message_request w m data ret = Some (data', effs)
        \<longrightarrow> submitted_nva (hd effs) = Some (request_nva m))"
proof -
  have "request_nva m =
     pseudo_headers m @
     filter (\<lambda>(name, val). map g_ascii_tolower name \<notin>
               {''connection'', ''keep-alive'', ''proxy-connection'',
                ''transfer-encoding'', ''upgrade''})
       (request_headers m)"
    unfolding request_nva_def append_request_headers_filter request_header_is_valid_iff ..
  then show ?thesis
    using send_message_request_nva by blast
qed

theorem request_headers_filtered_witness:
  "(\<exists>data' effs. send_message_request nghttp2_weights example_msg example_data 1
       = Some (data', effs)
       \<and> submitted_nva (hd effs)
           = Some (pseudo_headers example_msg
                   @ [(''Accept'', ''*/*''), (''User-Agent'', ''soup'')]))"
proof -
  obtain data' effs where
    s: "send_message_request nghttp2_weights example_msg example_data 1 = Some (data', effs)"
    by (simp add: send_message_request_def Let_def NGHTTP2_ERR_STREAM_ID_NOT_AVAILABLE_def
        NGHTTP2_ERR_NOMEM_def)
  have "filter (\<lambda>(name, val). map g_ascii_tolower name \<notin>
               {''connection'', ''keep-alive'', ''proxy-connection'',
                ''transfer-encoding'', ''upgrade''})
         (request_headers example_msg) = [(''Accept'', ''*/*''), (''User-Agent'', ''soup'')]"
    unfolding example_msg_def by code_simp
  with s request_headers_filtered [of example_msg nghttp2_weights example_data 1]
  show ?thesis by simp
qed

subsection \<open>The path pseudo-header\<close>





subsection \<open>The state of a stream\<close>

lemmas callback_defs =
  soup_http2_message_data_check_status_def io_try_sniff_content_def on_header_callback_def
  on_begin_frame_callback_def frame_recv_final_headers_def on_frame_recv_stream_def
  on_data_chunk_recv_callback_def on_before_frame_send_callback_def
  on_frame_send_callback_def client_stream_eof_def soup_client_message_io_http2_pause_def
  soup_client_message_io_http2_unpause_def goaway_stream_def on_stream_close_callback_def
  advance_state_from_def set_error_for_data_def flag_set_def status_of_value_def
  SOUP_STATUS_CONTINUE_def SOUP_STATUS_NO_CONTENT_def SOUP_STATUS_IS_INFORMATIONAL_def
  NGHTTP2_FLAG_END_STREAM_def NGHTTP2_FLAG_END_HEADERS_def
  NGHTTP2_NO_ERROR_def NGHTTP2_REFUSED_STREAM_def NGHTTP2_CANCEL_def

lemmas example_defs =
  example_msg_def example_post_def example_data_def example_io_def example_env_def
  example_headers_frame_def example_exchange_204_def new_message_data_def

lemma advance_state_from_mono:
  "state_rank (state data) \<le> state_rank (state (advance_state_from data from_st to_st))"
  by (simp add: advance_state_from_def)

lemma state_set_error_for_data [simp]:
  "state (set_error_for_data data e) = state data"
  by (simp add: set_error_for_data_def)

lemma check_status_mono:
  "soup_http2_message_data_check_status env data = (data', effs)
     \<Longrightarrow> state_rank (state data) \<le> state_rank (state data')"
  by (auto simp: soup_http2_message_data_check_status_def Let_def advance_state_from_def
      split: if_splits option.splits)

lemma io_try_sniff_content_mono:
  "state_rank (state data) \<le> state_rank (state (io_try_sniff_content env data))"
  by (simp add: io_try_sniff_content_def advance_state_from_mono)

lemma on_header_callback_state:
  "on_header_callback data name val = (data', effs) \<Longrightarrow> state data' = state data"
  by (auto simp: on_header_callback_def split: if_splits)

lemma on_begin_frame_callback_mono:
  "on_begin_frame_callback data ty = Some (data', effs)
     \<Longrightarrow> state_rank (state data) \<le> state_rank (state data')"
  by (cases ty) (auto simp: on_begin_frame_callback_def advance_state_from_def split: if_splits)

lemma frame_recv_final_headers_mono:
  "frame_recv_final_headers data frame = (data', effs)
     \<Longrightarrow> state_rank (state data) \<le> state_rank (state data')"
  by (auto simp: frame_recv_final_headers_def advance_state_from_def split: if_splits)

lemma on_frame_recv_stream_mono:
  assumes "on_frame_recv_stream env data frame = Some (data', effs)"
  shows "state_rank (state data) \<le> state_rank (state data')"
proof (cases "hd_type frame")
  case NGHTTP2_HEADERS
  with assms show ?thesis
    by (cases "headers_cat frame")
      (auto simp: on_frame_recv_stream_def Let_def
        split: if_splits dest: frame_recv_final_headers_mono)
next
  case NGHTTP2_DATA
  show ?thesis
  proof (cases "flag_set (hd_flags frame) NGHTTP2_FLAG_END_STREAM \<and> body_istream data
                \<and> state data = STATE_READ_DATA_START")
    case False
    with assms NGHTTP2_DATA show ?thesis
      by (auto simp: on_frame_recv_stream_def split: if_splits)
  next
    case True
    let ?d1 = "io_try_sniff_content env data"
    have m1: "state_rank (state data) \<le> state_rank (state ?d1)"
      by (rule io_try_sniff_content_mono)
    show ?thesis
    proof (cases "state ?d1 = STATE_READ_DATA \<and> item_async ?d1")
      case False
      with assms NGHTTP2_DATA True m1 show ?thesis
        by (auto simp: on_frame_recv_stream_def Let_def split: if_splits)
    next
      case c: True
      obtain d2 e2 where cs: "soup_http2_message_data_check_status env ?d1 = (d2, e2)"
        by (cases "soup_http2_message_data_check_status env ?d1")
      from check_status_mono [OF cs] m1
      have "state_rank (state data) \<le> state_rank (state d2)" by simp
      moreover from assms NGHTTP2_DATA True c cs have "data' = d2"
        by (auto simp: on_frame_recv_stream_def Let_def split: if_splits)
      ultimately show ?thesis by simp
    qed
  qed
qed (use assms in \<open>auto simp: on_frame_recv_stream_def split: if_splits\<close>)

lemma on_data_chunk_recv_callback_mono:
  "on_data_chunk_recv_callback env data = Some (data', effs)
     \<Longrightarrow> state_rank (state data) \<le> state_rank (state data')"
  using io_try_sniff_content_mono [of data env]
  by (auto simp: on_data_chunk_recv_callback_def split: if_splits)

lemma on_before_frame_send_callback_mono:
  "on_before_frame_send_callback data ty = (data', effs)
     \<Longrightarrow> state_rank (state data) \<le> state_rank (state data')"
  by (cases ty) (auto simp: on_before_frame_send_callback_def advance_state_from_def)

lemma on_frame_send_callback_mono:
  "on_frame_send_callback data frame = (data', effs)
     \<Longrightarrow> state_rank (state data) \<le> state_rank (state data')"
  by (cases "hd_type frame")
    (auto simp: on_frame_send_callback_def advance_state_from_def Let_def split: if_splits)

lemma on_stream_close_callback_state:
  "on_stream_close_callback (Some data) ec = Some data' \<Longrightarrow> state data' = state data"
  by (auto simp: on_stream_close_callback_def split: if_splits)

lemma unpause_mono:
  "soup_client_message_io_http2_unpause env data = (data', effs)
     \<Longrightarrow> state_rank (state data) \<le> state_rank (state data')"
  by (auto simp: soup_client_message_io_http2_unpause_def Let_def split: if_splits
      dest: check_status_mono)

lemma goaway_stream_state [simp]:
  "state (goaway_stream ec lst data) = state data"
  by (simp add: goaway_stream_def)

lemma stream_step_mono:
  "stream_step env data ev = Some (data', effs)
     \<Longrightarrow> state_rank (state data) \<le> state_rank (state data')"
proof (cases ev)
  case (Ev_header name val)
  assume "stream_step env data ev = Some (data', effs)"
  with Ev_header show ?thesis by (auto dest: on_header_callback_state)
next
  case (Ev_stream_close ec)
  assume "stream_step env data ev = Some (data', effs)"
  with Ev_stream_close show ?thesis by (auto dest: on_stream_close_callback_state)
qed (auto dest: on_begin_frame_callback_mono on_frame_recv_stream_mono
      on_data_chunk_recv_callback_mono on_before_frame_send_callback_mono
      on_frame_send_callback_mono check_status_mono unpause_mono
      simp: client_stream_eof_def advance_state_from_mono
        soup_client_message_io_http2_pause_def)

lemma run_stream_mono:
  "run_stream (data, log) evs = Some (data', log')
     \<Longrightarrow> state_rank (state data) \<le> state_rank (state data')"
proof (induction evs arbitrary: data log)
  case Nil
  then show ?case by simp
next
  case (Cons x evs)
  obtain env ev where x: "x = (env, ev)" by (cases x)
  from Cons.prems x obtain d1 e1 where
    st: "stream_step env data ev = Some (d1, e1)"
    and rest: "run_stream (d1, log @ e1) evs = Some (data', log')"
    by (auto split: option.splits)
  from stream_step_mono [OF st] Cons.IH [OF rest] show ?case by simp
qed

lemma run_stream_append:
  "run_stream s (evs1 @ evs2) = Some s2
     \<Longrightarrow> \<exists>s1. run_stream s evs1 = Some s1 \<and> run_stream s1 evs2 = Some s2"
proof (induction evs1 arbitrary: s)
  case Nil
  then show ?case by simp
next
  case (Cons x evs1)
  obtain env ev where x: "x = (env, ev)" by (cases x)
  obtain data log where s: "s = (data, log)" by (cases s)
  from Cons.prems x s obtain d1 e1 where
    st: "stream_step env data ev = Some (d1, e1)"
    and rest: "run_stream (d1, log @ e1) (evs1 @ evs2) = Some s2"
    by (auto split: option.splits)
  from Cons.IH [OF rest] st x s show ?case by auto
qed

text \<open>
  C2. Over any sequence of operations on a stream, the state at a later point is
  never below the state at an earlier point; a call of \<^verbatim>\<open>advance_state_from\<close> whose
  target is below the current state changes nothing, and no call lowers the state.
\<close>

theorem state_never_goes_backwards:
  "(run_stream (data, log) (evs1 @ evs2) = Some (data2, log2) \<longrightarrow>
      (\<exists>data1 log1. run_stream (data, log) evs1 = Some (data1, log1)
         \<and> run_stream (data1, log1) evs2 = Some (data2, log2)
         \<and> state_rank (state data) \<le> state_rank (state data1)
         \<and> state_rank (state data1) \<le> state_rank (state data2)))
   \<and> (state_rank to_st < state_rank (state data)
        \<longrightarrow> advance_state_from data from_st to_st = data)
   \<and> state_rank (state data) \<le> state_rank (state (advance_state_from data from_st to_st))"
proof -
  have "\<exists>data1 log1. run_stream (data, log) evs1 = Some (data1, log1)
         \<and> run_stream (data1, log1) evs2 = Some (data2, log2)
         \<and> state_rank (state data) \<le> state_rank (state data1)
         \<and> state_rank (state data1) \<le> state_rank (state data2)"
    if r: "run_stream (data, log) (evs1 @ evs2) = Some (data2, log2)"
  proof -
    from run_stream_append [OF r] obtain data1 log1 where
      a: "run_stream (data, log) evs1 = Some (data1, log1)"
      and b: "run_stream (data1, log1) evs2 = Some (data2, log2)"
      by auto
    from run_stream_mono [OF a] run_stream_mono [OF b] a b show ?thesis by blast
  qed
  then show ?thesis
    by (simp add: advance_state_from_def)
qed

theorem state_never_goes_backwards_witness:
  "(\<exists>data1 log1 data2 log2.
      run_stream (example_data, []) (take 3 example_exchange_204) = Some (data1, log1)
      \<and> run_stream (data1, log1) (drop 3 example_exchange_204) = Some (data2, log2)
      \<and> state example_data = STATE_NONE
      \<and> state data1 = STATE_READ_HEADERS
      \<and> state data2 = STATE_READ_DONE)
   \<and> state_rank STATE_WRITE_DONE < state_rank (state (example_data\<lparr>state := STATE_READ_DATA\<rparr>))
   \<and> advance_state_from (example_data\<lparr>state := STATE_READ_DATA\<rparr>)
         STATE_WRITE_HEADERS STATE_WRITE_DONE
       = example_data\<lparr>state := STATE_READ_DATA\<rparr>"
proof -
  obtain d2 l2 where
    r: "run_stream (example_data, []) (take 3 example_exchange_204 @ drop 3 example_exchange_204)
          = Some (d2, l2)"
    and s2: "state d2 = STATE_READ_DONE"
    by (simp add: callback_defs example_defs Let_def)
  obtain d l where
    p: "run_stream (example_data, []) (take 3 example_exchange_204) = Some (d, l)"
    and s1: "state d = STATE_READ_HEADERS"
    by (simp add: callback_defs example_defs Let_def)
  have s0: "state example_data = STATE_NONE"
    by (simp add: example_defs)
  have b: "state_rank STATE_WRITE_DONE
             < state_rank (state (example_data\<lparr>state := STATE_READ_DATA\<rparr>))"
    by simp
  from r state_never_goes_backwards
         [of example_data "[]" "take 3 example_exchange_204" "drop 3 example_exchange_204" d2 l2]
  obtain d1 l1 where
    "run_stream (example_data, []) (take 3 example_exchange_204) = Some (d1, l1)"
    "run_stream (d1, l1) (drop 3 example_exchange_204) = Some (d2, l2)"
    by blast
  with p s1 s2 s0 have
    "\<exists>data1 log1 data2 log2.
      run_stream (example_data, []) (take 3 example_exchange_204) = Some (data1, log1)
      \<and> run_stream (data1, log1) (drop 3 example_exchange_204) = Some (data2, log2)
      \<and> state example_data = STATE_NONE
      \<and> state data1 = STATE_READ_HEADERS
      \<and> state data2 = STATE_READ_DONE"
    by auto
  moreover
  from b state_never_goes_backwards
         [where data = "example_data\<lparr>state := STATE_READ_DATA\<rparr>"
            and to_st = STATE_WRITE_DONE and from_st = STATE_WRITE_HEADERS]
  have "advance_state_from (example_data\<lparr>state := STATE_READ_DATA\<rparr>)
         STATE_WRITE_HEADERS STATE_WRITE_DONE
       = example_data\<lparr>state := STATE_READ_DATA\<rparr>"
    by blast
  ultimately show ?thesis using b by blast
qed

subsection \<open>Request body and 100-continue\<close>

lemma check_status_no_data:
  "soup_http2_message_data_check_status env data = (data', effs)
     \<Longrightarrow> \<not> list_ex submits_data effs"
  by (auto simp: soup_http2_message_data_check_status_def Let_def
      split: if_splits option.splits)

lemma frame_recv_no_data:
  assumes "on_frame_recv_stream env data frame = Some (data', effs)"
    and "\<not> continue_received data (Ev_frame_recv frame)"
  shows "\<not> list_ex submits_data effs"
proof (cases "hd_type frame")
  case NGHTTP2_HEADERS
  with assms show ?thesis
    by (cases "headers_cat frame")
      (auto simp: on_frame_recv_stream_def Let_def frame_recv_final_headers_def
        split: if_splits)
next
  case NGHTTP2_DATA
  with assms show ?thesis
    by (auto simp: on_frame_recv_stream_def Let_def split: if_splits prod.splits
        dest: check_status_no_data)
qed (use assms in \<open>auto simp: on_frame_recv_stream_def split: if_splits\<close>)

lemma stream_step_no_data:
  assumes "stream_step env data ev = Some (data', effs)"
    and "\<not> continue_received data ev"
  shows "\<not> list_ex submits_data effs"
proof (cases ev)
  case (Ev_frame_recv frame)
  with assms show ?thesis by (auto dest: frame_recv_no_data)
next
  case (Ev_begin_frame ty)
  with assms show ?thesis
    by (cases ty) (auto simp: on_begin_frame_callback_def split: if_splits)
next
  case (Ev_before_frame_send ty)
  with assms show ?thesis
    by (cases ty) (auto simp: on_before_frame_send_callback_def)
next
  case (Ev_frame_send frame)
  with assms show ?thesis
    by (cases "hd_type frame")
      (auto simp: on_frame_send_callback_def Let_def split: if_splits)
qed (use assms in \<open>auto simp: on_header_callback_def on_data_chunk_recv_callback_def
      client_stream_eof_def soup_client_message_io_http2_unpause_def Let_def
      split: if_splits dest: check_status_no_data\<close>)

lemma run_stream_first_data:
  "run_stream (data, log) evs = Some (data', log')
     \<Longrightarrow> \<not> list_ex submits_data log \<Longrightarrow> list_ex submits_data log'
     \<Longrightarrow> \<exists>pre env ev post dk lk.
           evs = pre @ (env, ev) # post
           \<and> run_stream (data, log) pre = Some (dk, lk)
           \<and> \<not> list_ex submits_data lk
           \<and> continue_received dk ev"
proof (induction evs arbitrary: data log)
  case Nil
  then show ?case by simp
next
  case (Cons x evs)
  obtain env ev where x: "x = (env, ev)" by (cases x)
  from Cons.prems(1) x obtain d1 e1 where
    st: "stream_step env data ev = Some (d1, e1)"
    and rest: "run_stream (d1, log @ e1) evs = Some (data', log')"
    by (auto split: option.splits)
  show ?case
  proof (cases "continue_received data ev")
    case True
    have "x # evs = [] @ (env, ev) # evs" using x by simp
    moreover have "run_stream (data, log) [] = Some (data, log)" by simp
    ultimately show ?thesis using True Cons.prems(2) by blast
  next
    case False
    from stream_step_no_data [OF st False] Cons.prems(2)
    have "\<not> list_ex submits_data (log @ e1)" by (auto simp: list_ex_iff)
    from Cons.IH [OF rest this Cons.prems(3)] obtain pre env' ev' post dk lk where
      e: "evs = pre @ (env', ev') # post"
      and r: "run_stream (d1, log @ e1) pre = Some (dk, lk)"
      and n: "\<not> list_ex submits_data lk"
      and c: "continue_received dk ev'"
      by blast
    from e x have "x # evs = ((env, ev) # pre) @ (env', ev') # post" by simp
    moreover from st r have "run_stream (data, log) ((env, ev) # pre) = Some (dk, lk)"
      by simp
    ultimately show ?thesis using n c by blast
  qed
qed

lemma expect_continue_advance_state_from [simp]:
  "expect_continue (advance_state_from data from_st to_st) = expect_continue data"
  by (simp add: advance_state_from_def)

lemma check_status_expect_continue:
  "soup_http2_message_data_check_status env data = (data', effs)
     \<Longrightarrow> expect_continue data' = expect_continue data"
  by (auto simp: soup_http2_message_data_check_status_def Let_def
      split: if_splits option.splits)

lemma frame_recv_expect_continue:
  assumes "on_frame_recv_stream env data frame = Some (data', effs)"
  shows "expect_continue data' = expect_continue data"
proof (cases "hd_type frame")
  case NGHTTP2_HEADERS
  with assms show ?thesis
    by (cases "headers_cat frame")
      (auto simp: on_frame_recv_stream_def Let_def frame_recv_final_headers_def
        split: if_splits)
next
  case NGHTTP2_DATA
  with assms show ?thesis
    by (auto simp: on_frame_recv_stream_def Let_def io_try_sniff_content_def
        split: if_splits prod.splits
        dest: check_status_expect_continue)
qed (use assms in \<open>auto simp: on_frame_recv_stream_def set_error_for_data_def
       split: if_splits\<close>)

lemma stream_step_expect_continue:
  assumes "stream_step env data ev = Some (data', effs)"
  shows "expect_continue data' = expect_continue data"
proof (cases ev)
  case (Ev_frame_recv frame)
  with assms show ?thesis by (auto dest: frame_recv_expect_continue)
next
  case (Ev_begin_frame ty)
  with assms show ?thesis
    by (cases ty)
      (auto simp: on_begin_frame_callback_def split: if_splits)
next
  case (Ev_before_frame_send ty)
  with assms show ?thesis
    by (cases ty) (auto simp: on_before_frame_send_callback_def)
next
  case (Ev_frame_send frame)
  with assms show ?thesis
    by (cases "hd_type frame")
      (auto simp: on_frame_send_callback_def Let_def
        split: if_splits)
qed (use assms in \<open>auto simp: on_header_callback_def on_data_chunk_recv_callback_def
      client_stream_eof_def soup_client_message_io_http2_unpause_def Let_def
      soup_client_message_io_http2_pause_def goaway_stream_def set_error_for_data_def
      on_stream_close_callback_def io_try_sniff_content_def
      split: if_splits dest: check_status_expect_continue\<close>)

lemma run_stream_expect_continue:
  "run_stream (data, log) evs = Some (data', log')
     \<Longrightarrow> expect_continue data' = expect_continue data"
proof (induction evs arbitrary: data log)
  case Nil
  then show ?case by simp
next
  case (Cons x evs)
  obtain env ev where x: "x = (env, ev)" by (cases x)
  from Cons.prems x obtain d1 e1 where
    st: "stream_step env data ev = Some (d1, e1)"
    and rest: "run_stream (d1, log @ e1) evs = Some (data', log')"
    by (auto split: option.splits)
  from stream_step_expect_continue [OF st] Cons.IH [OF rest] show ?case by simp
qed

lemma run_stream_snoc:
  "run_stream s evs = Some (dk, lk) \<Longrightarrow> stream_step env dk ev = Some (d', effs)
     \<Longrightarrow> run_stream s (evs @ [(env, ev)]) = Some (d', lk @ effs)"
proof (induction evs arbitrary: s)
  case Nil
  then show ?case by (cases s) simp
next
  case (Cons x evs)
  obtain env' ev' where x: "x = (env', ev')" by (cases x)
  obtain data log where s: "s = (data, log)" by (cases s)
  from Cons.prems(1) x s obtain d1 e1 where
    st: "stream_step env' data ev' = Some (d1, e1)"
    and rest: "run_stream (d1, log @ e1) evs = Some (dk, lk)"
    by (auto split: option.splits)
  from Cons.IH [OF rest Cons.prems(2)] st x s show ?case by simp
qed

lemma frame_recv_continue:
  "continue_received data (Ev_frame_recv frame) \<Longrightarrow> expect_continue data
     \<Longrightarrow> stream_step env data (Ev_frame_recv frame)
         = Some (data\<lparr>msg := env_cleanup_response env (msg data)\<rparr>,
                 [Nghttp2_submit_data NGHTTP2_FLAG_END_STREAM (hd_stream_id frame),
                  Io_try_write (\<not> item_async data),
                  Soup_message_got_informational, Soup_message_cleanup_response])"
  by (simp add: on_frame_recv_stream_def SOUP_STATUS_IS_INFORMATIONAL_def
      SOUP_STATUS_CONTINUE_def)

lemma send_message_request_continue:
  assumes "request_body_stream m" and "expectation_continue m"
    and "send_message_request w m data ret = Some (data1, log1)"
  shows "expect_continue data1"
    and "hd log1 = Nghttp2_submit_headers (message_priority_to_weight w m) (request_nva m)"
    and "\<not> list_ex submits_data log1"
  using assms by (auto simp: send_message_request_def Let_def set_error_for_data_def
      split: if_splits)

text \<open>
  C6, as the code has it. For a request with a body and the 100-continue expectation,
  \<^verbatim>\<open>send_message_request\<close> sets \<^verbatim>\<open>expect_continue\<close> and submits the headers with
  \<^verbatim>\<open>nghttp2_submit_headers\<close>, which takes no body provider. Whenever the log of a later
  run on the stream holds a call that submits the body, the run has passed a point where
  a HEADERS frame of category RESPONSE was received with status 100, and no such call
  was logged up to that point. When a HEADERS frame of category RESPONSE is received
  with status 100, \<^verbatim>\<open>nghttp2_submit_data\<close> is called for the frame's stream with the
  END_STREAM flag.
\<close>

theorem body_waits_for_continue:
  assumes "request_body_stream m" and "expectation_continue m"
    and "send_message_request w m data ret = Some (data1, log1)"
  shows "expect_continue data1
    \<and> hd log1 = Nghttp2_submit_headers (message_priority_to_weight w m) (request_nva m)
    \<and> \<not> list_ex submits_data log1
    \<and> (\<forall>evs data2 log2.
         run_stream (data1, log1) evs = Some (data2, log2) \<and> list_ex submits_data log2
         \<longrightarrow> (\<exists>pre env ev post dk lk.
               evs = pre @ (env, ev) # post
               \<and> run_stream (data1, log1) pre = Some (dk, lk)
               \<and> \<not> list_ex submits_data lk
               \<and> continue_received dk ev))
    \<and> (\<forall>evs dk lk env frame.
         run_stream (data1, log1) evs = Some (dk, lk)
         \<and> continue_received dk (Ev_frame_recv frame)
         \<longrightarrow> run_stream (data1, log1) (evs @ [(env, Ev_frame_recv frame)])
             = Some (dk\<lparr>msg := env_cleanup_response env (msg dk)\<rparr>,
                     lk @ [Nghttp2_submit_data NGHTTP2_FLAG_END_STREAM (hd_stream_id frame),
                           Io_try_write (\<not> item_async dk),
                           Soup_message_got_informational, Soup_message_cleanup_response]))"
proof -
  note s = send_message_request_continue [OF assms]
  have first: "\<exists>pre env ev post dk lk.
               evs = pre @ (env, ev) # post
               \<and> run_stream (data1, log1) pre = Some (dk, lk)
               \<and> \<not> list_ex submits_data lk
               \<and> continue_received dk ev"
    if "run_stream (data1, log1) evs = Some (data2, log2)" and "list_ex submits_data log2"
    for evs data2 log2
    using run_stream_first_data [OF that(1) s(3) that(2)] .
  have at: "run_stream (data1, log1) (evs @ [(env, Ev_frame_recv frame)])
             = Some (dk\<lparr>msg := env_cleanup_response env (msg dk)\<rparr>,
                     lk @ [Nghttp2_submit_data NGHTTP2_FLAG_END_STREAM (hd_stream_id frame),
                           Io_try_write (\<not> item_async dk),
                           Soup_message_got_informational, Soup_message_cleanup_response])"
    if r: "run_stream (data1, log1) evs = Some (dk, lk)"
      and c: "continue_received dk (Ev_frame_recv frame)"
    for evs dk lk env frame
  proof -
    from run_stream_expect_continue [OF r] s(1) have "expect_continue dk" by simp
    from run_stream_snoc [OF r frame_recv_continue [OF c this]] show ?thesis .
  qed
  from s first at show ?thesis by blast
qed

theorem body_waits_for_continue_witness:
  "request_body_stream example_post \<and> expectation_continue example_post
   \<and> (\<exists>data1 log1 dk lk.
         send_message_request nghttp2_weights example_post example_post_data 1
           = Some (data1, log1)
         \<and> expect_continue data1
         \<and> \<not> list_ex submits_data log1
         \<and> run_stream (data1, log1) example_until_continue = Some (dk, lk)
         \<and> \<not> list_ex submits_data lk
         \<and> continue_received dk (Ev_frame_recv (example_headers_frame 4 NGHTTP2_HCAT_RESPONSE))
         \<and> run_stream (data1, log1)
             (example_until_continue
              @ [(example_env, Ev_frame_recv (example_headers_frame 4 NGHTTP2_HCAT_RESPONSE))])
           = Some (dk\<lparr>msg := env_cleanup_response example_env (msg dk)\<rparr>,
                   lk @ [Nghttp2_submit_data NGHTTP2_FLAG_END_STREAM 1, Io_try_write False,
                         Soup_message_got_informational, Soup_message_cleanup_response]))"
proof -
  let ?f = "example_headers_frame 4 NGHTTP2_HCAT_RESPONSE"
  let ?d1 = "example_post_data\<lparr>expect_continue := True, stream_id := 1\<rparr>"
  let ?l1 = "[Nghttp2_submit_headers 16 (request_nva example_post), Io_try_write False]"
  have h1: "request_body_stream example_post" and h2: "expectation_continue example_post"
    by (simp_all add: example_post_def)
  have s: "send_message_request nghttp2_weights example_post example_post_data 1
             = Some (?d1, ?l1)"
    by (simp add: send_message_request_def Let_def NGHTTP2_ERR_STREAM_ID_NOT_AVAILABLE_def
        NGHTTP2_ERR_NOMEM_def message_priority_to_weight_def nghttp2_weights_def
        example_post_def example_msg_def example_post_data_def new_message_data_def)
  obtain dk lk where
    r: "run_stream (?d1, ?l1) example_until_continue = Some (dk, lk)"
    and n: "\<not> list_ex submits_data lk"
    and c: "continue_received dk (Ev_frame_recv ?f)"
    and a: "item_async dk"
    by (simp add: callback_defs example_defs example_post_data_def
        example_until_continue_def Let_def)
  note t = body_waits_for_continue [OF h1 h2 s]
  from t have e: "expect_continue ?d1" and n1: "\<not> list_ex submits_data ?l1"
    by blast+
  from t r c have "run_stream (?d1, ?l1) (example_until_continue @ [(example_env, Ev_frame_recv ?f)])
           = Some (dk\<lparr>msg := env_cleanup_response example_env (msg dk)\<rparr>,
                   lk @ [Nghttp2_submit_data NGHTTP2_FLAG_END_STREAM (hd_stream_id ?f),
                         Io_try_write (\<not> item_async dk),
                         Soup_message_got_informational, Soup_message_cleanup_response])"
    by blast
  moreover have "hd_stream_id ?f = 1"
    by (simp add: example_headers_frame_def)
  ultimately have "run_stream (?d1, ?l1) (example_until_continue @ [(example_env, Ev_frame_recv ?f)])
           = Some (dk\<lparr>msg := env_cleanup_response example_env (msg dk)\<rparr>,
                   lk @ [Nghttp2_submit_data NGHTTP2_FLAG_END_STREAM 1, Io_try_write False,
                         Soup_message_got_informational, Soup_message_cleanup_response])"
    using a by simp
  with h1 h2 s e n1 r n c show ?thesis by blast
qed

text \<open>
  The peer answers the POST with 103 and then with 100. The second HEADERS frame has the
  category HEADERS; when it is received the status of the message is 100 and
  \<^verbatim>\<open>expect_continue\<close> is set, yet no call that submits the body is made: the callback
  takes the path of final headers and ends with \<^verbatim>\<open>soup_message_got_headers\<close>.
\<close>

theorem body_waits_for_continue_counterexample:
  "send_message_request nghttp2_weights example_post example_post_data 1
     = Some (example_post_data\<lparr>expect_continue := True, stream_id := 1\<rparr>,
             [Nghttp2_submit_headers 16 (request_nva example_post), Io_try_write False])
   \<and> map_option (expect_continue \<circ> fst)
         (run_stream (example_post_data\<lparr>expect_continue := True, stream_id := 1\<rparr>,
                      [Nghttp2_submit_headers 16 (request_nva example_post),
                       Io_try_write False])
            example_until_continue_after_103) = Some True
   \<and> map_option (status_code \<circ> msg \<circ> fst)
         (run_stream (example_post_data\<lparr>expect_continue := True, stream_id := 1\<rparr>,
                      [Nghttp2_submit_headers 16 (request_nva example_post),
                       Io_try_write False])
            example_until_continue_after_103) = Some 100
   \<and> spec_status_100_received
         (fst (the (run_stream (example_post_data\<lparr>expect_continue := True, stream_id := 1\<rparr>,
                      [Nghttp2_submit_headers 16 (request_nva example_post),
                       Io_try_write False])
            example_until_continue_after_103)))
         (snd example_continue_as_headers)
   \<and> map_option (list_ex submits_data \<circ> snd)
         (run_stream (example_post_data\<lparr>expect_continue := True, stream_id := 1\<rparr>,
                      [Nghttp2_submit_headers 16 (request_nva example_post),
                       Io_try_write False])
            (example_until_continue_after_103 @ [example_continue_as_headers])) = Some False
   \<and> map_option (last \<circ> snd)
         (run_stream (example_post_data\<lparr>expect_continue := True, stream_id := 1\<rparr>,
                      [Nghttp2_submit_headers 16 (request_nva example_post),
                       Io_try_write False])
            (example_until_continue_after_103 @ [example_continue_as_headers]))
       = Some Soup_message_got_headers"
  by (simp add: callback_defs example_defs example_post_data_def
      example_until_continue_after_103_def example_continue_as_headers_def Let_def
      send_message_request_def NGHTTP2_ERR_STREAM_ID_NOT_AVAILABLE_def
      NGHTTP2_ERR_NOMEM_def message_priority_to_weight_def nghttp2_weights_def)

subsection \<open>Peer GOAWAY\<close>

lemma goaway_stream_error:
  "error (goaway_stream ec lst data) =
     (if error data = None
         \<and> ((ec = 0 \<and> sint (stream_id data) > sint lst)
            \<or> state_rank (state data) < state_rank STATE_READ_DONE)
      then Some (GError G_IO_ERROR_FAILED (''HTTP/2 Error: '' @ nghttp2_http2_strerror ec))
      else error data)"
  by (simp add: goaway_stream_def set_error_for_data_def)

text \<open>
  C1. Streams 1 and 3 are in flight (response headers being read) when the peer sends
  GOAWAY with error code 0 and last stream id 1. \<^verbatim>\<open>on_frame_recv_callback\<close> sets the
  error \<^verbatim>\<open>HTTP/2 Error: NO_ERROR\<close> on stream 3 and also on stream 1, whose id is not
  above the last stream id.
\<close>

theorem graceful_goaway_errors_stream_in_range:
  "\<exists>io'. on_frame_recv_callback example_env example_io_two_streams None example_goaway_frame
           = Some io'
     \<and> map_option stream_id (map_of (messages io') 10) = Some 1
     \<and> map_option error (map_of (messages io') 10)
         = Some (Some (GError G_IO_ERROR_FAILED ''HTTP/2 Error: NO_ERROR''))
     \<and> map_option error (map_of (messages io') 11)
         = Some (Some (GError G_IO_ERROR_FAILED ''HTTP/2 Error: NO_ERROR''))"
  by (simp add: on_frame_recv_callback_def example_goaway_frame_def example_io_two_streams_def
      example_io_def example_data_def new_message_data_def
      handle_goaway_def goaway_stream_def set_error_for_data_def
      soup_client_message_io_http2_terminate_session_def nghttp2_http2_strerror_def)

subsection \<open>Finishing a message\<close>




end
